theory Spec2Isabelle
  imports Complex_Main
begin

section \<open>The diffusion notebook: data model\<close>

text \<open>
  The repository is one notebook, \<^verbatim>\<open>notebook/01_introduction_to_diffusers.ipynb\<close>, that
  drives two libraries (torch and diffusers). Its own code is the training loop
  (the cell after "Training Loop") and the sampling loop (the cell after "Option 2:
  Writing a Sampling Loop"). The library calls those cells make are taken as a record of
  functions: the notebook's code is modelled, the libraries' code is a parameter.

  Type variables: \<open>'t\<close> tensors, \<open>'g\<close> states of torch's default random generator,
  \<open>'p\<close> parameter vectors of the model, \<open>'o\<close> optimizer states, \<open>'arr\<close> the
  scheduler's precomputed arrays.
\<close>

text \<open>
  The second argument of \<^verbatim>\<open>model(x, timestep)\<close>: the training cell passes the batch's
  vector of timesteps, the sampling cell one element of \<^verbatim>\<open>noise_scheduler.timesteps\<close>.
\<close>

datatype timestep_arg = Scalar nat | Batch "nat list"

text \<open>
  The fields of a scheduler object the notebook reads:
  \<^verbatim>\<open>noise_scheduler.num_train_timesteps\<close>, \<^verbatim>\<open>noise_scheduler.timesteps\<close> and
  \<^verbatim>\<open>noise_scheduler.alphas_cumprod\<close>.
\<close>

record 'arr scheduler =
  num_train_timesteps :: nat
  timesteps :: "nat list"
  alphas_cumprod :: 'arr

text \<open>
  Modelled from the spec: the constructor \<^verbatim>\<open>DDPMScheduler(num_train_timesteps=T, ...)\<close>
  is code of the diffusers library and is not in the repository. The spec gives the
  range the sampling loop iterates over, "the scheduler's full range in strictly
  descending order (T-1, T-2, ..., 0)"; the arrays the constructor precomputes are a
  parameter.
\<close>

definition DDPMScheduler :: "nat \<Rightarrow> 'arr \<Rightarrow> 'arr scheduler" where
  "DDPMScheduler T arrays =
     \<lparr>num_train_timesteps = T, timesteps = rev [0..<T], alphas_cumprod = arrays\<rparr>"

text \<open>
  The library calls of the two cells. Calls that draw random numbers
  (\<^verbatim>\<open>torch.randn\<close>, \<^verbatim>\<open>torch.randint\<close>, and \<^verbatim>\<open>noise_scheduler.step\<close>, which is given
  no generator of its own) take the state of torch's default generator and return the
  next one.

  \<^item> \<open>torch_randn shape g\<close>: \<^verbatim>\<open>torch.randn(shape)\<close>
  \<^item> \<open>torch_randint low high n g\<close>: \<^verbatim>\<open>torch.randint(low, high, (n,))\<close>
  \<^item> \<open>tensor_shape x\<close>: \<^verbatim>\<open>x.shape\<close>
  \<^item> \<open>scheduler_add_noise sch x noise ts\<close>: \<^verbatim>\<open>sch.add_noise(x, noise, ts)\<close>
  \<^item> \<open>scheduler_step sch out t x g\<close>: \<^verbatim>\<open>sch.step(out, t, x).prev_sample\<close>
  \<^item> \<open>model_call m \<theta> x ts\<close>: the output tensor of \<^verbatim>\<open>model(x, ts)\<close> when torch's
    gradient mode is \<open>m\<close> and the model's parameters are \<open>\<theta>\<close>. The call reads the
    gradient mode: with the mode on, the output carries the graph that \<^verbatim>\<open>backward\<close>
    walks; with the mode off, it does not
  \<^item> \<open>F_mse_loss a b\<close>: \<^verbatim>\<open>F.mse_loss(a, b)\<close>, a scalar
  \<^item> \<open>autograd f \<theta>\<close>: what reverse-mode differentiation computes for the scalar \<open>f\<close>
    at the parameters \<open>\<theta>\<close>, as a linear functional on parameter directions
  \<^item> \<open>optimizer_step o \<theta> g\<close>: \<^verbatim>\<open>optimizer.step()\<close> on parameters \<open>\<theta>\<close> whose
    \<^verbatim>\<open>.grad\<close> is \<open>g\<close>
\<close>

record ('t, 'g, 'p, 'o, 'arr) library =
  torch_randn :: "nat list \<Rightarrow> 'g \<Rightarrow> 't \<times> 'g"
  torch_randint :: "nat \<Rightarrow> nat \<Rightarrow> nat \<Rightarrow> 'g \<Rightarrow> nat list \<times> 'g"
  tensor_shape :: "'t \<Rightarrow> nat list"
  scheduler_add_noise :: "'arr scheduler \<Rightarrow> 't \<Rightarrow> 't \<Rightarrow> nat list \<Rightarrow> 't"
  scheduler_step :: "'arr scheduler \<Rightarrow> 't \<Rightarrow> nat \<Rightarrow> 't \<Rightarrow> 'g \<Rightarrow> 't \<times> 'g"
  model_call :: "bool \<Rightarrow> 'p \<Rightarrow> 't \<Rightarrow> timestep_arg \<Rightarrow> 't"
  F_mse_loss :: "'t \<Rightarrow> 't \<Rightarrow> real"
  autograd :: "('p \<Rightarrow> real) \<Rightarrow> 'p \<Rightarrow> ('p \<Rightarrow> real)"
  optimizer_step :: "'o \<Rightarrow> 'p \<Rightarrow> ('p \<Rightarrow> real) \<Rightarrow> 'o \<times> 'p"

text \<open>
  The notebook's global state: the objects the cells share (model parameters and their
  \<^verbatim>\<open>.grad\<close>, optimizer, scheduler, torch's default generator and gradient mode, the
  \<^verbatim>\<open>losses\<close> list) and the variables the two cells assign. A notebook cell runs at module
  level, so each of its variables is a global name, the targets of the two inner
  \<^verbatim>\<open>for\<close> statements included (\<^verbatim>\<open>step\<close> and \<^verbatim>\<open>batch\<close>, \<^verbatim>\<open>i\<close> and \<^verbatim>\<open>t\<close>). Every variable
  below is assigned by its cell before the cell reads it. The variables \<^verbatim>\<open>step\<close>,
  \<^verbatim>\<open>timesteps\<close>, \<^verbatim>\<open>i\<close> and \<^verbatim>\<open>t\<close> carry the suffix \<open>_v\<close>. The dictionary \<^verbatim>\<open>batch\<close> that
  the data loader yields has the one key \<^verbatim>\<open>"images"\<close> (the notebook's \<^verbatim>\<open>do_transform\<close>
  builds it); the field \<open>batch\<close> holds the tensor under that key.
\<close>

record ('t, 'g, 'p, 'o, 'arr) notebook =
  model :: 'p
  grads :: "'p \<Rightarrow> real"
  optimizer :: 'o
  noise_scheduler :: "'arr scheduler"
  generator :: 'g
  grad_enabled :: bool
  losses :: "real list"
  step_v :: nat
  batch :: 't
  clean_images :: 't
  noise :: 't
  bs :: nat
  timesteps_v :: "nat list"
  noisy_images :: 't
  noise_pred :: 't
  loss :: real
  sample :: 't
  residual :: 't
  i_v :: nat
  t_v :: nat

datatype error = IndexError | RuntimeError

section \<open>The sampling loop\<close>

text \<open>
  \<^verbatim>\<open>
  sample = torch.randn(8, 3, 32, 32).to(device)

  for i, t in enumerate(noise_scheduler.timesteps):
      with torch.no_grad():
          residual = model(sample, t).sample
      sample = noise_scheduler.step(residual, t, sample).prev_sample
  \<close>
\<close>

definition sampling_init ::
  "('t, 'g, 'p, 'o, 'arr) library \<Rightarrow> ('t, 'g, 'p, 'o, 'arr) notebook
     \<Rightarrow> ('t, 'g, 'p, 'o, 'arr) notebook" where
  "sampling_init L s =
     (let (x, g) = torch_randn L [8, 3, 32, 32] (generator s)
      in s\<lparr>sample := x, generator := g\<rparr>)"

text \<open>
  One pass through the body of the \<^verbatim>\<open>for\<close> statement, for the pair \<open>(i, t)\<close> that
  \<^verbatim>\<open>enumerate\<close> yields. The \<^verbatim>\<open>with torch.no_grad()\<close> block switches gradient mode off and
  puts the previous mode back when it is left; the model is called inside the block, in
  the mode the block has set.
\<close>

definition sampling_body ::
  "('t, 'g, 'p, 'o, 'arr) library \<Rightarrow> nat \<times> nat \<Rightarrow> ('t, 'g, 'p, 'o, 'arr) notebook
     \<Rightarrow> ('t, 'g, 'p, 'o, 'arr) notebook" where
  "sampling_body L it s =
     (let s1 = s\<lparr>i_v := fst it, t_v := snd it\<rparr>;
          prev = grad_enabled s1;
          s2 = s1\<lparr>grad_enabled := False\<rparr>;
          s3 = s2\<lparr>residual :=
                  model_call L (grad_enabled s2) (model s2) (sample s2) (Scalar (t_v s2))\<rparr>;
          s4 = s3\<lparr>grad_enabled := prev\<rparr>;
          (x, g) = scheduler_step L (noise_scheduler s4) (residual s4) (t_v s4) (sample s4)
                     (generator s4)
      in s4\<lparr>sample := x, generator := g\<rparr>)"

fun sampling_for ::
  "('t, 'g, 'p, 'o, 'arr) library \<Rightarrow> (nat \<times> nat) list \<Rightarrow> ('t, 'g, 'p, 'o, 'arr) notebook
     \<Rightarrow> ('t, 'g, 'p, 'o, 'arr) notebook" where
  "sampling_for L [] s = s"
| "sampling_for L (it # its) s = sampling_for L its (sampling_body L it s)"

text \<open>The states at the end of each pass through the body, in order.\<close>

fun sampling_passes ::
  "('t, 'g, 'p, 'o, 'arr) library \<Rightarrow> (nat \<times> nat) list \<Rightarrow> ('t, 'g, 'p, 'o, 'arr) notebook
     \<Rightarrow> ('t, 'g, 'p, 'o, 'arr) notebook list" where
  "sampling_passes L [] s = []"
| "sampling_passes L (it # its) s =
     sampling_body L it s # sampling_passes L its (sampling_body L it s)"

definition sampling_loop ::
  "('t, 'g, 'p, 'o, 'arr) library \<Rightarrow> ('t, 'g, 'p, 'o, 'arr) notebook
     \<Rightarrow> ('t, 'g, 'p, 'o, 'arr) notebook" where
  "sampling_loop L s =
     (let s0 = sampling_init L s
      in sampling_for L (enumerate 0 (timesteps (noise_scheduler s0))) s0)"

section \<open>The training loop\<close>

text \<open>
  \<^verbatim>\<open>
  for epoch in range(30):
      for step, batch in enumerate(train_dataloader):
          clean_images = batch["images"].to(device)
          noise = torch.randn(clean_images.shape).to(clean_images.device)
          bs = clean_images.shape[0]
          timesteps = torch.randint(
              0, noise_scheduler.num_train_timesteps, (bs,), device=clean_images.device
          )
          noisy_images = noise_scheduler.add_noise(clean_images, noise, timesteps)
          noise_pred = model(noisy_images, timesteps, return_dict=False)[0]
          loss = F.mse_loss(noise_pred, noise)
          loss.backward(loss)
          losses.append(loss.item())
          optimizer.step()
          optimizer.zero_grad()
  \<close>
\<close>

text \<open>
  The scalar \<^verbatim>\<open>loss\<close> as a function of the model's parameters, the inputs of the
  iteration held fixed: the computation that \<^verbatim>\<open>loss.backward\<close> differentiates.
\<close>

definition loss_of ::
  "('t, 'g, 'p, 'o, 'arr) library \<Rightarrow> ('t, 'g, 'p, 'o, 'arr) notebook \<Rightarrow> 'p \<Rightarrow> real" where
  "loss_of L s \<theta> =
     F_mse_loss L
       (model_call L (grad_enabled s) \<theta> (noisy_images s) (Batch (timesteps_v s))) (noise s)"

text \<open>
  \<^verbatim>\<open>y.backward(gradient)\<close> for a scalar \<open>y\<close>: each parameter's \<^verbatim>\<open>.grad\<close> receives, added to
  what it holds, \<open>gradient\<close> times the derivative of \<open>y\<close> with respect to the parameter.
  The gradients are linear functionals on parameter directions.
\<close>

definition tensor_backward ::
  "('t, 'g, 'p, 'o, 'arr) library \<Rightarrow> ('p \<Rightarrow> real) \<Rightarrow> 'p \<Rightarrow> real \<Rightarrow> ('p \<Rightarrow> real)
     \<Rightarrow> ('p \<Rightarrow> real)" where
  "tensor_backward L y \<theta> gradient acc = (\<lambda>h. acc h + gradient * autograd L y \<theta> h)"

text \<open>
  One pass through the inner \<^verbatim>\<open>for\<close> statement, for the pair \<open>(step, batch)\<close> that
  \<^verbatim>\<open>enumerate\<close> yields: the statement binds its two targets, then the body runs.
  \<^verbatim>\<open>clean_images.shape[0]\<close> raises IndexError on a tensor without dimensions, and
  \<^verbatim>\<open>backward\<close> raises RuntimeError when gradient mode was off while the loss was
  computed. The model is called in the gradient mode the notebook is in.
\<close>

definition train_iteration ::
  "('t, 'g, 'p, 'o, 'arr) library \<Rightarrow> nat \<times> 't \<Rightarrow> ('t, 'g, 'p, 'o, 'arr) notebook
     \<Rightarrow> error + ('t, 'g, 'p, 'o, 'arr) notebook" where
  "train_iteration L it s =
     (let s0 = s\<lparr>step_v := fst it, batch := snd it\<rparr>;
          s1 = s0\<lparr>clean_images := batch s0\<rparr>;
          (n, g1) = torch_randn L (tensor_shape L (clean_images s1)) (generator s1);
          s2 = s1\<lparr>noise := n, generator := g1\<rparr>
      in case tensor_shape L (clean_images s2) of
           [] \<Rightarrow> Inl IndexError
         | b # _ \<Rightarrow>
            (let s3 = s2\<lparr>bs := b\<rparr>;
                 (ts, g2) = torch_randint L 0 (num_train_timesteps (noise_scheduler s3))
                              (bs s3) (generator s3);
                 s4 = s3\<lparr>timesteps_v := ts, generator := g2\<rparr>;
                 s5 = s4\<lparr>noisy_images :=
                         scheduler_add_noise L (noise_scheduler s4) (clean_images s4)
                           (noise s4) (timesteps_v s4)\<rparr>;
                 s6 = s5\<lparr>noise_pred :=
                         model_call L (grad_enabled s5) (model s5) (noisy_images s5)
                           (Batch (timesteps_v s5))\<rparr>;
                 s7 = s6\<lparr>loss := F_mse_loss L (noise_pred s6) (noise s6)\<rparr>
             in if \<not> grad_enabled s7 then Inl RuntimeError
                else
                 (let s8 = s7\<lparr>grads :=
                             tensor_backward L (loss_of L s7) (model s7) (loss s7) (grads s7)\<rparr>;
                      s9 = s8\<lparr>losses := losses s8 @ [loss s8]\<rparr>;
                      (opt, \<theta>) = optimizer_step L (optimizer s9) (model s9) (grads s9);
                      s10 = s9\<lparr>optimizer := opt, model := \<theta>\<rparr>
                  in Inr (s10\<lparr>grads := (\<lambda>h. 0)\<rparr>))))"

text \<open>
  The inner \<^verbatim>\<open>for\<close> statement over the pairs that \<^verbatim>\<open>enumerate(train_dataloader)\<close> yields
  in one epoch; an error ends it.
\<close>

fun train_for ::
  "('t, 'g, 'p, 'o, 'arr) library \<Rightarrow> (nat \<times> 't) list \<Rightarrow> ('t, 'g, 'p, 'o, 'arr) notebook
     \<Rightarrow> error + ('t, 'g, 'p, 'o, 'arr) notebook" where
  "train_for L [] s = Inr s"
| "train_for L (it # its) s =
     (case train_iteration L it s of Inl e \<Rightarrow> Inl e | Inr s' \<Rightarrow> train_for L its s')"

definition train_epoch ::
  "('t, 'g, 'p, 'o, 'arr) library \<Rightarrow> 't list \<Rightarrow> ('t, 'g, 'p, 'o, 'arr) notebook
     \<Rightarrow> error + ('t, 'g, 'p, 'o, 'arr) notebook" where
  "train_epoch L batches s = train_for L (enumerate 0 batches) s"

section \<open>A small library instance\<close>

text \<open>
  A concrete instance of the library record, on which the definitions above compute:
  a tensor is a list with one real for each item of the batch and its shape is its
  length, the generator is a counter that every draw advances, the
  model has one real parameter and scales its input by it in either gradient mode, the
  optimizer takes a plain
  gradient step and counts its calls. The losses of this model are quadratic in the
  parameter, for which the central difference is the derivative.
\<close>

definition toy :: "(real list, nat, real, nat, unit) library" where
  "toy = \<lparr>torch_randn =
            (\<lambda>sh g. (replicate (case sh of [] \<Rightarrow> 1 | n # _ \<Rightarrow> n) (real g), Suc g)),
          torch_randint = (\<lambda>low high n g. (replicate n (low + g mod (high - low)), Suc g)),
          tensor_shape = (\<lambda>x. [length x]),
          scheduler_add_noise = (\<lambda>sch x n ts. map2 (+) x n),
          scheduler_step = (\<lambda>sch out t x g. (map2 (-) x out, Suc g)),
          model_call = (\<lambda>m \<theta> x ts. map (\<lambda>v. \<theta> * v) x),
          F_mse_loss = (\<lambda>a b. sum_list (map2 (\<lambda>x y. (x - y)\<^sup>2) a b) / real (length a)),
          autograd = (\<lambda>f \<theta> h. h * ((f (\<theta> + 1) - f (\<theta> - 1)) / 2)),
          optimizer_step = (\<lambda>opt \<theta> g. (Suc opt, \<theta> - g 1))\<rparr>"

definition toy_state :: "(real list, nat, real, nat, unit) notebook" where
  "toy_state =
     \<lparr>model = 3, grads = (\<lambda>h. 0), optimizer = 0, noise_scheduler = DDPMScheduler 3 (),
      generator = 1, grad_enabled = True, losses = [], step_v = 0, batch = [],
      clean_images = [], noise = [], bs = 0, timesteps_v = [], noisy_images = [],
      noise_pred = [], loss = 0, sample = [], residual = [], i_v = 0, t_v = 0\<rparr>"

section \<open>The frame of a training iteration, as the specification words it\<close>

text \<open>
  The specification's sentence on the side effects of the training loop, read on the
  state above: the log grows by one entry and, the model's parameters, their gradients
  and the optimizer apart, the shared objects (scheduler, default generator, gradient
  mode) and the variables of the sampling cell are what they were. The variables that
  the training loop's own statements bind are left out of the comparison.
\<close>

definition only_log_and_parameters_change ::
  "('t, 'g, 'p, 'o, 'arr) notebook \<Rightarrow> ('t, 'g, 'p, 'o, 'arr) notebook \<Rightarrow> bool" where
  "only_log_and_parameters_change s s' \<longleftrightarrow>
     length (losses s') = Suc (length (losses s)) \<and>
     noise_scheduler s' = noise_scheduler s \<and>
     generator s' = generator s \<and>
     grad_enabled s' = grad_enabled s \<and>
     sample s' = sample s \<and> residual s' = residual s \<and> i_v s' = i_v s \<and> t_v s' = t_v s"

text \<open>
  The same sentence with the default generator excepted: the comparison above without
  its conjunct on the generator.
\<close>

definition only_log_parameters_and_generator_change ::
  "('t, 'g, 'p, 'o, 'arr) notebook \<Rightarrow> ('t, 'g, 'p, 'o, 'arr) notebook \<Rightarrow> bool" where
  "only_log_parameters_and_generator_change s s' \<longleftrightarrow>
     length (losses s') = Suc (length (losses s)) \<and>
     noise_scheduler s' = noise_scheduler s \<and>
     grad_enabled s' = grad_enabled s \<and>
     sample s' = sample s \<and> residual s' = residual s \<and> i_v s' = i_v s \<and> t_v s' = t_v s"

section \<open>What one pass of the sampling loop reads and writes\<close>

lemma sampling_body_frame:
  "model (sampling_body L it s) = model s"
  "noise_scheduler (sampling_body L it s) = noise_scheduler s"
  "grads (sampling_body L it s) = grads s"
  "optimizer (sampling_body L it s) = optimizer s"
  "losses (sampling_body L it s) = losses s"
  "grad_enabled (sampling_body L it s) = grad_enabled s"
  by (simp_all add: sampling_body_def Let_def split: prod.splits)

lemma sampling_body_vars:
  "i_v (sampling_body L it s) = fst it"
  "t_v (sampling_body L it s) = snd it"
  "residual (sampling_body L it s) = model_call L False (model s) (sample s) (Scalar (snd it))"
  by (simp_all add: sampling_body_def Let_def split: prod.splits)

lemma sampling_body_sample:
  "scheduler_step L (noise_scheduler s) (model_call L False (model s) (sample s) (Scalar (snd it)))
     (snd it) (sample s) (generator s)
   = (sample (sampling_body L it s), generator (sampling_body L it s))"
  by (simp add: sampling_body_def Let_def split: prod.splits)

lemma sampling_for_frame:
  "model (sampling_for L its s) = model s \<and>
   noise_scheduler (sampling_for L its s) = noise_scheduler s \<and>
   grads (sampling_for L its s) = grads s \<and>
   optimizer (sampling_for L its s) = optimizer s \<and>
   losses (sampling_for L its s) = losses s \<and>
   grad_enabled (sampling_for L its s) = grad_enabled s"
  by (induction its arbitrary: s) (simp_all add: sampling_body_frame)

lemma sampling_init_frame:
  "model (sampling_init L s) = model s"
  "noise_scheduler (sampling_init L s) = noise_scheduler s"
  "grads (sampling_init L s) = grads s"
  "optimizer (sampling_init L s) = optimizer s"
  "losses (sampling_init L s) = losses s"
  "grad_enabled (sampling_init L s) = grad_enabled s"
  by (simp_all add: sampling_init_def split: prod.splits)

lemma sampling_init_draw:
  "torch_randn L [8, 3, 32, 32] (generator s)
     = (sample (sampling_init L s), generator (sampling_init L s))"
  by (simp add: sampling_init_def split: prod.splits)

lemma length_sampling_passes: "length (sampling_passes L its s) = length its"
  by (induction its arbitrary: s) simp_all

lemma sampling_passes_vars:
  "map i_v (sampling_passes L its s) = map fst its \<and>
   map t_v (sampling_passes L its s) = map snd its"
  by (induction its arbitrary: s) (simp_all add: sampling_body_vars)

lemma sampling_for_last: "sampling_for L its s = last (s # sampling_passes L its s)"
  by (induction its arbitrary: s) simp_all

lemma sampling_passes_nth:
  "k < length its \<Longrightarrow>
   sampling_passes L its s ! k = sampling_body L (its ! k) ((s # sampling_passes L its s) ! k)"
proof (induction its arbitrary: s k)
  case Nil
  then show ?case by simp
next
  case (Cons it its)
  show ?case
  proof (cases k)
    case 0
    then show ?thesis by simp
  next
    case (Suc j)
    with Cons.prems have "j < length its" by simp
    from Cons.IH [OF this, of "sampling_body L it s"] Suc show ?thesis by simp
  qed
qed

lemma sampling_passes_frame:
  "s' \<in> set (s # sampling_passes L its s) \<Longrightarrow>
   model s' = model s \<and> noise_scheduler s' = noise_scheduler s"
proof (induction its arbitrary: s)
  case Nil
  then show ?case by simp
next
  case (Cons it its)
  from Cons.prems consider "s' = s"
    | "s' \<in> set (sampling_body L it s # sampling_passes L its (sampling_body L it s))"
    by auto
  then show ?case
  proof cases
    case 1
    then show ?thesis by simp
  next
    case 2
    from Cons.IH [OF this] show ?thesis by (simp add: sampling_body_frame)
  qed
qed

lemma enumerate_rev_upt:
  "map fst (enumerate 0 (rev [0..<T])) = [0..<T]"
  "map snd (enumerate 0 (rev [0..<T])) = rev [0..<T]"
  "length (enumerate 0 (rev [0..<T])) = T"
  by (simp_all add: enumerate_eq_zip)

lemma enumerate_rev_upt_nth:
  "k < T \<Longrightarrow> enumerate 0 (rev [0..<T]) ! k = (k, T - 1 - k)"
  by (simp add: nth_enumerate_eq rev_nth)

section \<open>The sampling loop visits every timestep once, in descending order\<close>

text \<open>
  Claim C2. When the scheduler was built for \<open>T\<close> training timesteps, the sampling
  cell draws its first sample with \<^verbatim>\<open>torch.randn(8, 3, 32, 32)\<close> and then passes through
  the loop body exactly \<open>T\<close> times. The passes see \<open>t = T-1, T-2, ..., 0\<close> (strictly
  descending) and \<open>i = 0, ..., T-1\<close>; pass \<open>k\<close> replaces the sample by what
  \<^verbatim>\<open>noise_scheduler.step\<close> returns for the model's output (computed in gradient mode
  off) on the sample it found, at timestep \<open>T-1-k\<close>; the loop ends in the state the last
  pass left.
\<close>

theorem sampling_loop_descending_timesteps:
  assumes sch: "noise_scheduler s = DDPMScheduler T arrays"
  shows "let s0 = sampling_init L s;
             passes = sampling_passes L (enumerate 0 (timesteps (noise_scheduler s0))) s0
         in (sample s0, generator s0) = torch_randn L [8, 3, 32, 32] (generator s)
          \<and> length passes = num_train_timesteps (noise_scheduler s)
          \<and> length passes = T
          \<and> map t_v passes = rev [0..<T]
          \<and> map i_v passes = [0..<T]
          \<and> sorted_wrt (>) (map t_v passes)
          \<and> (\<forall>k<T. (sample (passes ! k), generator (passes ! k))
                     = scheduler_step L (noise_scheduler s)
                         (model_call L False (model s) (sample ((s0 # passes) ! k)) (Scalar (T - 1 - k)))
                         (T - 1 - k) (sample ((s0 # passes) ! k)) (generator ((s0 # passes) ! k)))
          \<and> sampling_loop L s = last (s0 # passes)"
proof -
  define s0 where "s0 = sampling_init L s"
  define its where "its = enumerate 0 (rev [0..<T])"
  define passes where "passes = sampling_passes L its s0"
  have ts: "timesteps (noise_scheduler s0) = rev [0..<T]"
    by (simp add: s0_def sampling_init_frame sch DDPMScheduler_def)
  have len: "length passes = T"
    by (simp add: passes_def its_def length_sampling_passes)
  have tv: "map t_v passes = rev [0..<T]"
    by (simp add: passes_def its_def sampling_passes_vars enumerate_rev_upt)
  have iv: "map i_v passes = [0..<T]"
    by (simp add: passes_def its_def sampling_passes_vars enumerate_rev_upt)
  have desc: "sorted_wrt (>) (map t_v passes)"
    by (simp add: tv sorted_wrt_rev)
  have init: "(sample s0, generator s0) = torch_randn L [8, 3, 32, 32] (generator s)"
    by (simp add: s0_def sampling_init_draw)
  have step: "(sample (passes ! k), generator (passes ! k))
                = scheduler_step L (noise_scheduler s)
                    (model_call L False (model s) (sample ((s0 # passes) ! k)) (Scalar (T - 1 - k)))
                    (T - 1 - k) (sample ((s0 # passes) ! k)) (generator ((s0 # passes) ! k))"
    if "k < T" for k
  proof -
    let ?pre = "(s0 # passes) ! k"
    from that have k: "k < length its" by (simp add: its_def)
    have "?pre \<in> set (s0 # passes)"
      using that len by (intro nth_mem) simp
    then have fr: "model ?pre = model s0 \<and> noise_scheduler ?pre = noise_scheduler s0"
      unfolding passes_def by (rule sampling_passes_frame)
    have "passes ! k = sampling_body L (its ! k) ?pre"
      unfolding passes_def by (rule sampling_passes_nth [OF k])
    then have "passes ! k = sampling_body L (k, T - 1 - k) ?pre"
      using that by (simp add: its_def enumerate_rev_upt_nth)
    then show ?thesis
      using sampling_body_sample [of L ?pre "(k, T - 1 - k)"] fr
      by (simp add: s0_def sampling_init_frame)
  qed
  have loop: "sampling_loop L s = last (s0 # passes)"
    by (simp add: sampling_loop_def Let_def ts sampling_for_last passes_def its_def
        s0_def [symmetric])
  show ?thesis
    unfolding Let_def s0_def [symmetric] ts its_def [symmetric] passes_def [symmetric]
    using init len tv iv desc step loop by (simp add: sch DDPMScheduler_def)
qed

theorem sampling_loop_descending_timesteps_witness:
  "noise_scheduler toy_state = DDPMScheduler 3 () \<and>
   length (sampling_passes toy (enumerate 0 [2, 1, 0]) (sampling_init toy toy_state)) = 3 \<and>
   map t_v (sampling_passes toy (enumerate 0 [2, 1, 0]) (sampling_init toy toy_state))
     = [2, 1, 0] \<and>
   map i_v (sampling_passes toy (enumerate 0 [2, 1, 0]) (sampling_init toy toy_state))
     = [0, 1, 2] \<and>
   map sample (sampling_passes toy (enumerate 0 [2, 1, 0]) (sampling_init toy toy_state))
     = [replicate 8 (- 2), replicate 8 4, replicate 8 (- 8)] \<and>
   (sample (sampling_passes toy (enumerate 0 [2, 1, 0]) (sampling_init toy toy_state) ! 1),
    generator (sampling_passes toy (enumerate 0 [2, 1, 0]) (sampling_init toy toy_state) ! 1))
     = scheduler_step toy (DDPMScheduler 3 ())
         (model_call toy False 3 (replicate 8 (- 2)) (Scalar 1)) 1 (replicate 8 (- 2)) 3 \<and>
   sample (sampling_loop toy toy_state) = replicate 8 (- 8)"
proof -
  let ?s0 = "sampling_init toy toy_state"
  let ?passes = "sampling_passes toy (enumerate 0 [2, 1, 0]) ?s0"
  have sch: "noise_scheduler toy_state = DDPMScheduler 3 ()"
    by (simp add: toy_state_def)
  have ts: "timesteps (noise_scheduler ?s0) = [2, 1, 0]"
    by (simp add: sampling_init_frame sch DDPMScheduler_def upt_rec)
  have up: "rev [0..<3] = [2, 1, 0]" "[0..<3] = [0, 1, 2]"
    by (simp_all add: upt_rec)
  have m: "model toy_state = 3"
    by (simp add: toy_state_def)
  have samples: "map sample ?passes = [replicate 8 (- 2), replicate 8 4, replicate 8 (- 8)]"
    and gens: "map generator ?passes = [3, 4, 5]"
    by (simp_all add: sampling_init_def sampling_body_def toy_def toy_state_def Let_def)
  have s0': "sample (?passes ! 0) = replicate 8 (- 2)"
    by (simp add: sampling_init_def sampling_body_def toy_def toy_state_def Let_def)
  have g0': "generator (?passes ! 0) = 3"
    by (simp add: sampling_init_def sampling_body_def toy_def toy_state_def Let_def)
  note inst = sampling_loop_descending_timesteps [OF sch, of toy, unfolded Let_def ts up m]
  have len: "length ?passes = 3"
    using inst by blast
  have tv: "map t_v ?passes = [2, 1, 0]"
    using inst by simp
  have iv: "map i_v ?passes = [0, 1, 2]"
    using inst by blast
  have last: "sampling_loop toy toy_state = last (?s0 # ?passes)"
    using inst by blast
  have all: "\<forall>k<3. (sample (?passes ! k), generator (?passes ! k))
                = scheduler_step toy (noise_scheduler toy_state)
                    (model_call toy False 3 (sample ((?s0 # ?passes) ! k)) (Scalar (3 - 1 - k)))
                    (3 - 1 - k) (sample ((?s0 # ?passes) ! k)) (generator ((?s0 # ?passes) ! k))"
    using inst by blast
  have one: "(sample (?passes ! 1), generator (?passes ! 1))
           = scheduler_step toy (DDPMScheduler 3 ())
               (model_call toy False 3 (replicate 8 (- 2)) (Scalar 1)) 1 (replicate 8 (- 2)) 3"
    using all [rule_format, of 1] s0' g0' sch by (simp del: sampling_passes.simps)
  have "sample (last (?s0 # ?passes)) = replicate 8 (- 8)"
    by (simp add: sampling_init_def sampling_body_def toy_def toy_state_def Let_def)
  with last have fin: "sample (sampling_loop toy toy_state) = replicate 8 (- 8)"
    by (simp only:)
  from sch len tv iv samples one fin show ?thesis by blast
qed

section \<open>Sampling leaves the model and the scheduler as they were\<close>

lemma sampling_passes_residual:
  "map residual (sampling_passes L its s)
     = map2 (\<lambda>pre it. model_call L False (model s) (sample pre) (Scalar (snd it)))
         (s # sampling_passes L its s) its"
proof (induction its arbitrary: s)
  case Nil
  then show ?case by simp
next
  case (Cons it its)
  from Cons.IH [of "sampling_body L it s"] show ?case
    by (simp add: sampling_body_vars sampling_body_frame)
qed

lemma sampling_body_independent:
  "sampling_body
     (L\<lparr>model_call := (\<lambda>m. if m then with_grad else model_call L False),
        autograd := ag, optimizer_step := opt\<rparr>) it s
   = sampling_body L it s"
  by (simp add: sampling_body_def)

lemma sampling_for_independent:
  "sampling_for
     (L\<lparr>model_call := (\<lambda>m. if m then with_grad else model_call L False),
        autograd := ag, optimizer_step := opt\<rparr>) its s
   = sampling_for L its s"
  by (induction its arbitrary: s) (simp_all add: sampling_body_independent)

lemma sampling_loop_independent:
  "sampling_loop
     (L\<lparr>model_call := (\<lambda>m. if m then with_grad else model_call L False),
        autograd := ag, optimizer_step := opt\<rparr>) s
   = sampling_loop L s"
  by (simp add: sampling_loop_def sampling_init_def sampling_for_independent)

text \<open>
  Claim C10. The sampling cell calls the model only with gradient mode switched off,
  whatever the mode was before the cell: the residual of every pass is the model's
  output in mode off on the sample the pass found, and the run is the same when the
  model's behaviour in mode on, \<^verbatim>\<open>backward\<close>'s differentiation and the optimizer's step
  are replaced by anything else, so the cell uses none of them. After the whole loop the
  model's parameters, their gradients, the optimizer, the scheduler (its precomputed
  arrays with it) and the loss log are what they were, and gradient mode is back to
  its value before the cell.
\<close>

theorem sampling_loop_preserves_model:
  "(let s0 = sampling_init L s;
        its = enumerate 0 (timesteps (noise_scheduler s0));
        passes = sampling_passes L its s0
    in map residual passes
         = map2 (\<lambda>pre it. model_call L False (model s) (sample pre) (Scalar (snd it)))
             (s0 # passes) its) \<and>
   sampling_loop
     (L\<lparr>model_call := (\<lambda>m. if m then with_grad else model_call L False),
        autograd := ag, optimizer_step := opt\<rparr>) s
     = sampling_loop L s \<and>
   model (sampling_loop L s) = model s \<and>
   noise_scheduler (sampling_loop L s) = noise_scheduler s \<and>
   alphas_cumprod (noise_scheduler (sampling_loop L s)) = alphas_cumprod (noise_scheduler s) \<and>
   grads (sampling_loop L s) = grads s \<and>
   optimizer (sampling_loop L s) = optimizer s \<and>
   losses (sampling_loop L s) = losses s \<and>
   grad_enabled (sampling_loop L s) = grad_enabled s"
proof -
  have res: "map residual (sampling_passes L its (sampling_init L s))
     = map2 (\<lambda>pre it. model_call L False (model s) (sample pre) (Scalar (snd it)))
         (sampling_init L s # sampling_passes L its (sampling_init L s)) its" for its
    using sampling_passes_residual [of L its "sampling_init L s"]
    by (simp add: sampling_init_frame)
  have frame: "model (sampling_loop L s) = model s \<and>
     noise_scheduler (sampling_loop L s) = noise_scheduler s \<and>
     grads (sampling_loop L s) = grads s \<and>
     optimizer (sampling_loop L s) = optimizer s \<and>
     losses (sampling_loop L s) = losses s \<and>
     grad_enabled (sampling_loop L s) = grad_enabled s"
    by (simp add: sampling_loop_def Let_def sampling_for_frame sampling_init_frame)
  have indep: "sampling_loop
     (L\<lparr>model_call := (\<lambda>m. if m then with_grad else model_call L False),
        autograd := ag, optimizer_step := opt\<rparr>) s
     = sampling_loop L s"
    by (rule sampling_loop_independent)
  from res frame indep show ?thesis
    by (simp add: Let_def)
qed

section \<open>Sampling is a function of the generator state and the model's outputs\<close>

lemma sampling_body_agree:
  assumes "generator s1 = generator s2" and "sample s1 = sample s2"
    and "noise_scheduler s1 = noise_scheduler s2"
    and "\<And>x t. model_call L False (model s1) x t = model_call L False (model s2) x t"
  shows "generator (sampling_body L it s1) = generator (sampling_body L it s2) \<and>
         sample (sampling_body L it s1) = sample (sampling_body L it s2)"
proof -
  have "(sample (sampling_body L it s1), generator (sampling_body L it s1))
      = (sample (sampling_body L it s2), generator (sampling_body L it s2))"
    unfolding sampling_body_sample [symmetric] using assms by simp
  then show ?thesis by simp
qed

lemma sampling_for_agree:
  assumes "generator s1 = generator s2" and "sample s1 = sample s2"
    and "noise_scheduler s1 = noise_scheduler s2"
    and "\<And>x t. model_call L False (model s1) x t = model_call L False (model s2) x t"
  shows "generator (sampling_for L its s1) = generator (sampling_for L its s2) \<and>
         sample (sampling_for L its s1) = sample (sampling_for L its s2)"
  using assms
proof (induction its arbitrary: s1 s2)
  case Nil
  then show ?case by simp
next
  case (Cons it its)
  have "generator (sampling_body L it s1) = generator (sampling_body L it s2)"
    and "sample (sampling_body L it s1) = sample (sampling_body L it s2)"
    using sampling_body_agree [of s1 s2 L it] Cons.prems by simp_all
  moreover have "noise_scheduler (sampling_body L it s1) = noise_scheduler (sampling_body L it s2)"
    using Cons.prems by (simp add: sampling_body_frame)
  moreover have "model_call L False (model (sampling_body L it s1)) x t
                 = model_call L False (model (sampling_body L it s2)) x t" for x t
    using Cons.prems by (simp add: sampling_body_frame)
  ultimately show ?case
    using Cons.IH [of "sampling_body L it s1" "sampling_body L it s2"] by simp
qed

lemma sampling_loop_agree:
  assumes "generator s1 = generator s2"
    and "noise_scheduler s1 = noise_scheduler s2"
    and "\<And>x t. model_call L False (model s1) x t = model_call L False (model s2) x t"
  shows "sample (sampling_loop L s1) = sample (sampling_loop L s2)"
proof -
  have "(sample (sampling_init L s1), generator (sampling_init L s1))
      = (sample (sampling_init L s2), generator (sampling_init L s2))"
    unfolding sampling_init_draw [symmetric] using assms by simp
  then have "generator (sampling_init L s1) = generator (sampling_init L s2)"
    and "sample (sampling_init L s1) = sample (sampling_init L s2)" by simp_all
  moreover have "noise_scheduler (sampling_init L s1) = noise_scheduler (sampling_init L s2)"
    using assms by (simp add: sampling_init_frame)
  moreover have "model_call L False (model (sampling_init L s1)) x t
                 = model_call L False (model (sampling_init L s2)) x t" for x t
    using assms by (simp add: sampling_init_frame)
  ultimately show ?thesis
    using sampling_for_agree [of "sampling_init L s1" "sampling_init L s2" L]
    by (simp add: sampling_loop_def Let_def)
qed

text \<open>
  Claim C7. Two runs of the sampling cell that start from the same state of torch's
  default generator (the same seed) with the same scheduler, and whose models give the
  same outputs in gradient mode off (the mode the cell calls them in), end with the same
  sample, whatever else differs between the two notebook states. In particular, when both models return the all-zero tensor of their
  input's shape, the generated sample depends on the seed alone.
\<close>

theorem sampling_loop_deterministic:
  assumes "generator s1 = generator s2"
    and "noise_scheduler s1 = noise_scheduler s2"
  shows "((\<forall>x t. model_call L False (model s1) x t = model_call L False (model s2) x t)
            \<longrightarrow> sample (sampling_loop L s1) = sample (sampling_loop L s2))
       \<and> ((\<forall>x t. model_call L False (model s1) x t = zeros_like x
                 \<and> model_call L False (model s2) x t = zeros_like x)
            \<longrightarrow> sample (sampling_loop L s1) = sample (sampling_loop L s2))"
proof (intro conjI impI)
  assume "\<forall>x t. model_call L False (model s1) x t = model_call L False (model s2) x t"
  then show "sample (sampling_loop L s1) = sample (sampling_loop L s2)"
    using assms by (intro sampling_loop_agree) simp_all
next
  assume "\<forall>x t. model_call L False (model s1) x t = zeros_like x
               \<and> model_call L False (model s2) x t = zeros_like x"
  then have "model_call L False (model s1) x t = model_call L False (model s2) x t" for x t
    by simp
  then show "sample (sampling_loop L s1) = sample (sampling_loop L s2)"
    using assms by (intro sampling_loop_agree) simp_all
qed

theorem sampling_loop_deterministic_witness:
  "generator toy_state = generator (toy_state\<lparr>losses := [1], sample := [5], i_v := 7\<rparr>) \<and>
   noise_scheduler toy_state
     = noise_scheduler (toy_state\<lparr>losses := [1], sample := [5], i_v := 7\<rparr>) \<and>
   sample (sampling_loop toy toy_state)
     = sample (sampling_loop toy (toy_state\<lparr>losses := [1], sample := [5], i_v := 7\<rparr>)) \<and>
   sample (sampling_loop toy (toy_state\<lparr>model := 0\<rparr>))
     = sample (sampling_loop toy (toy_state\<lparr>model := 0, losses := [1], sample := [5]\<rparr>))"
proof -
  let ?s2 = "toy_state\<lparr>losses := [1], sample := [5], i_v := 7\<rparr>"
  let ?z1 = "toy_state\<lparr>model := 0\<rparr>"
  let ?z2 = "toy_state\<lparr>model := 0, losses := [1], sample := [5]\<rparr>"
  have g: "generator toy_state = generator ?s2" and n: "noise_scheduler toy_state = noise_scheduler ?s2"
    by simp_all
  have same: "\<forall>x t. model_call toy False (model toy_state) x t = model_call toy False (model ?s2) x t"
    by simp
  from sampling_loop_deterministic [OF g n, of toy] same
  have a: "sample (sampling_loop toy toy_state) = sample (sampling_loop toy ?s2)"
    by blast
  have gz: "generator ?z1 = generator ?z2" and nz: "noise_scheduler ?z1 = noise_scheduler ?z2"
    by simp_all
  have zero: "\<forall>x t. model_call toy False (model ?z1) x t = map (\<lambda>v. 0) x
                  \<and> model_call toy False (model ?z2) x t = map (\<lambda>v. 0) x"
    by (simp add: toy_def)
  from sampling_loop_deterministic [OF gz nz, of toy "map (\<lambda>v. 0)"] zero
  have b: "sample (sampling_loop toy ?z1) = sample (sampling_loop toy ?z2)"
    by blast
  from g n a b show ?thesis by blast
qed

section \<open>One training iteration, step by step\<close>

text \<open>
  Claim C3. On a batch whose tensor has a leading batch dimension \<open>b\<close>, in the default
  gradient mode (on), a training iteration returns, and in the state it leaves: \<^verbatim>\<open>step\<close>
  and \<^verbatim>\<open>batch\<close> are the pair the \<^verbatim>\<open>for\<close> statement was given; the
  timesteps are what \<^verbatim>\<open>torch.randint(0, T, (b,))\<close> drew, one for each sample of the batch
  and each in \<open>[0, T-1]\<close>; the noise is what \<^verbatim>\<open>torch.randn\<close> drew for the shape of the
  batch, and has that shape; the corrupted batch is \<^verbatim>\<open>add_noise\<close> of the clean batch,
  that noise and those timesteps; the prediction is the model's output, in gradient mode
  on and under the parameters the iteration started with, on the corrupted batch and
  the timesteps; the
  loss is \<^verbatim>\<open>F.mse_loss\<close> of the prediction against the noise that was added. The two
  premises on the library say that \<^verbatim>\<open>randn\<close> returns a tensor of the shape it is asked
  for and \<^verbatim>\<open>randint\<close> a vector of the length it is asked for with entries in
  \<open>[low, high)\<close>; how the entries are distributed is the library's business.
\<close>

theorem train_iteration_steps:
  assumes shape: "tensor_shape L images = b # rest"
    and mode: "grad_enabled s"
    and randn_shape:
      "\<forall>g. tensor_shape L (fst (torch_randn L (tensor_shape L images) g)) = tensor_shape L images"
    and randint_range:
      "\<forall>g. length (fst (torch_randint L 0 (num_train_timesteps (noise_scheduler s)) b g)) = b
          \<and> set (fst (torch_randint L 0 (num_train_timesteps (noise_scheduler s)) b g))
              \<subseteq> {0..<num_train_timesteps (noise_scheduler s)}"
  shows "\<exists>s' g1. train_iteration L (k, images) s = Inr s'
      \<and> step_v s' = k \<and> batch s' = images
      \<and> clean_images s' = images \<and> bs s' = b
      \<and> torch_randn L (tensor_shape L images) (generator s) = (noise s', g1)
      \<and> torch_randint L 0 (num_train_timesteps (noise_scheduler s)) b g1
           = (timesteps_v s', generator s')
      \<and> length (timesteps_v s') = b
      \<and> set (timesteps_v s') \<subseteq> {0..<num_train_timesteps (noise_scheduler s)}
      \<and> tensor_shape L (noise s') = tensor_shape L images
      \<and> noisy_images s'
           = scheduler_add_noise L (noise_scheduler s) images (noise s') (timesteps_v s')
      \<and> noise_pred s' = model_call L True (model s) (noisy_images s') (Batch (timesteps_v s'))
      \<and> loss s' = F_mse_loss L (noise_pred s') (noise s')"
proof -
  obtain n g1 where n: "torch_randn L (tensor_shape L images) (generator s) = (n, g1)"
    by (cases "torch_randn L (tensor_shape L images) (generator s)")
  obtain ts g2
    where ts: "torch_randint L 0 (num_train_timesteps (noise_scheduler s)) b g1 = (ts, g2)"
    by (cases "torch_randint L 0 (num_train_timesteps (noise_scheduler s)) b g1")
  from randn_shape n have sh: "tensor_shape L n = tensor_shape L images"
    by (metis fst_conv)
  from randint_range ts have rg: "length ts = b"
    "set ts \<subseteq> {0..<num_train_timesteps (noise_scheduler s)}"
    by (metis fst_conv)+
  show ?thesis
    using shape mode n ts sh rg
    by (simp add: train_iteration_def Let_def split: prod.splits)
qed

theorem train_iteration_steps_witness:
  "tensor_shape toy [1, 2] = [2] \<and> grad_enabled toy_state \<and>
   train_iteration toy (4, [1, 2]) toy_state
     = Inr (toy_state\<lparr>step_v := 4, batch := [1, 2], clean_images := [1, 2], noise := [1, 1],
              bs := 2, timesteps_v := [2, 2], generator := 3, noisy_images := [2, 3], noise_pred := [6, 9], loss := 89 / 2,
              losses := [89 / 2], optimizer := 1, model := - 1510\<rparr>) \<and>
   (\<exists>s' g1. train_iteration toy (4, [1, 2]) toy_state = Inr s'
      \<and> torch_randint toy 0 3 2 g1 = (timesteps_v s', generator s')
      \<and> length (timesteps_v s') = 2
      \<and> noise_pred s' = model_call toy True 3 (noisy_images s') (Batch (timesteps_v s'))
      \<and> loss s' = F_mse_loss toy (noise_pred s') (noise s'))"
proof -
  have shape: "tensor_shape toy [1, 2] = 2 # []"
    by (simp add: toy_def)
  have mode: "grad_enabled toy_state"
    by (simp add: toy_state_def)
  have randn_shape:
    "\<forall>g. tensor_shape toy (fst (torch_randn toy (tensor_shape toy [1, 2]) g))
           = tensor_shape toy [1, 2]"
    by (simp add: toy_def)
  have T: "num_train_timesteps (noise_scheduler toy_state) = 3"
    by (simp add: toy_state_def DDPMScheduler_def)
  have randint_range:
    "\<forall>g. length (fst (torch_randint toy 0 (num_train_timesteps (noise_scheduler toy_state)) 2 g)) = 2
        \<and> set (fst (torch_randint toy 0 (num_train_timesteps (noise_scheduler toy_state)) 2 g))
            \<subseteq> {0..<num_train_timesteps (noise_scheduler toy_state)}"
    unfolding T by (simp add: toy_def)
  have run: "train_iteration toy (4, [1, 2]) toy_state
     = Inr (toy_state\<lparr>step_v := 4, batch := [1, 2], clean_images := [1, 2], noise := [1, 1],
              bs := 2, timesteps_v := [2, 2], generator := 3, noisy_images := [2, 3], noise_pred := [6, 9], loss := 89 / 2,
              losses := [89 / 2], optimizer := 1, model := - 1510\<rparr>)"
    by (simp add: train_iteration_def toy_def toy_state_def Let_def DDPMScheduler_def
        loss_of_def tensor_backward_def power2_eq_square)
  have m: "model toy_state = 3"
    by (simp add: toy_state_def)
  from train_iteration_steps [OF shape mode randn_shape randint_range]
  have "\<exists>s' g1. train_iteration toy (4, [1, 2]) toy_state = Inr s'
      \<and> torch_randint toy 0 3 2 g1 = (timesteps_v s', generator s')
      \<and> length (timesteps_v s') = 2
      \<and> noise_pred s' = model_call toy True 3 (noisy_images s') (Batch (timesteps_v s'))
      \<and> loss s' = F_mse_loss toy (noise_pred s') (noise s')"
    unfolding T m by blast
  with shape mode run show ?thesis by blast
qed

section \<open>What a training iteration changes\<close>

text \<open>
  Claim C8, as the specification states it, fails: an iteration draws the noise and the
  timesteps from torch's default generator, so the generator's state after the
  iteration is not the one before it. On the small instance the generator goes from 1
  to 3 in one iteration. The iteration also rebinds the loop's own variables: there
  \<^verbatim>\<open>step\<close> goes from 0 to 4 and \<^verbatim>\<open>timesteps\<close> from the empty vector to \<open>[2]\<close>.
\<close>

theorem train_iteration_advances_generator:
  "\<not> isl (train_iteration toy (4, [1]) toy_state) \<and>
   generator toy_state = 1 \<and>
   generator (projr (train_iteration toy (4, [1]) toy_state)) = 3 \<and>
   \<not> only_log_and_parameters_change toy_state (projr (train_iteration toy (4, [1]) toy_state)) \<and>
   step_v toy_state = 0 \<and>
   step_v (projr (train_iteration toy (4, [1]) toy_state)) = 4 \<and>
   timesteps_v toy_state = [] \<and>
   timesteps_v (projr (train_iteration toy (4, [1]) toy_state)) = [2]"
  by (simp add: train_iteration_def toy_def toy_state_def Let_def
      only_log_and_parameters_change_def DDPMScheduler_def loss_of_def tensor_backward_def)

text \<open>
  Claim C8, amended. An iteration that returns appends exactly one value, its loss, to
  \<^verbatim>\<open>losses\<close>; and apart from this log, the parameter update (the model's parameters,
  their gradients, the optimizer), the state of torch's default generator, which is
  left as the two draws (\<^verbatim>\<open>randn\<close>, then \<^verbatim>\<open>randint\<close>) leave it, and the variables that
  the loop's own statements bind, the iteration changes nothing: the scheduler, the
  gradient mode and the sampling cell's variables are what they were. The last
  conjunct names every component that may differ: the loop's variables are the two
  targets of the \<^verbatim>\<open>for\<close> statement and the seven names its body assigns.
\<close>

theorem train_iteration_frame:
  assumes "train_iteration L (k, images) s = Inr s'"
  shows "only_log_parameters_and_generator_change s s'
     \<and> losses s' = losses s @ [loss s']
     \<and> generator s'
         = snd (torch_randint L 0 (num_train_timesteps (noise_scheduler s)) (bs s')
                 (snd (torch_randn L (tensor_shape L images) (generator s))))
     \<and> s' = s\<lparr>model := model s', grads := grads s', optimizer := optimizer s',
              generator := generator s', losses := losses s @ [loss s'],
              step_v := k, batch := images,
              clean_images := clean_images s', noise := noise s', bs := bs s',
              timesteps_v := timesteps_v s', noisy_images := noisy_images s',
              noise_pred := noise_pred s', loss := loss s'\<rparr>"
  using assms
  by (auto simp add: train_iteration_def Let_def only_log_parameters_and_generator_change_def
      split: prod.splits list.splits if_splits)

theorem train_iteration_frame_witness:
  "train_iteration toy (4, [1]) toy_state
     = Inr (toy_state\<lparr>step_v := 4, batch := [1], clean_images := [1], noise := [1], bs := 1,
              timesteps_v := [2], generator := 3, noisy_images := [2], noise_pred := [6],
              loss := 25, losses := [25], optimizer := 1, model := - 497\<rparr>) \<and>
   only_log_parameters_and_generator_change toy_state
     (toy_state\<lparr>step_v := 4, batch := [1], clean_images := [1], noise := [1], bs := 1,
              timesteps_v := [2], generator := 3, noisy_images := [2], noise_pred := [6],
              loss := 25, losses := [25], optimizer := 1, model := - 497\<rparr>) \<and>
   losses (toy_state\<lparr>step_v := 4, batch := [1], clean_images := [1], noise := [1], bs := 1,
              timesteps_v := [2], generator := 3, noisy_images := [2], noise_pred := [6],
              loss := 25, losses := [25], optimizer := 1, model := - 497\<rparr>)
     = losses toy_state @ [25]"
proof -
  let ?s' = "toy_state\<lparr>step_v := 4, batch := [1], clean_images := [1], noise := [1], bs := 1,
              timesteps_v := [2], generator := 3, noisy_images := [2], noise_pred := [6],
              loss := 25, losses := [25], optimizer := 1, model := - 497\<rparr>"
  have run: "train_iteration toy (4, [1]) toy_state = Inr ?s'"
    by (simp add: train_iteration_def toy_def toy_state_def Let_def DDPMScheduler_def
        loss_of_def tensor_backward_def)
  note inst = train_iteration_frame [OF run]
  have frame: "only_log_parameters_and_generator_change toy_state ?s'"
    using inst by blast
  have "losses ?s' = losses toy_state @ [loss ?s']"
    using inst by blast
  then have "losses ?s' = losses toy_state @ [25]"
    by simp
  with run frame show ?thesis by blast
qed

lemma train_for_losses:
  "train_for L its s = Inr s' \<Longrightarrow> length (losses s') = length (losses s) + length its"
proof (induction its arbitrary: s)
  case Nil
  then show ?case by simp
next
  case (Cons it its)
  from Cons.prems obtain s1 where s1: "train_iteration L it s = Inr s1"
    and rest: "train_for L its s1 = Inr s'"
    by (auto split: sum.splits)
  from s1 have "length (losses s1) = Suc (length (losses s))"
    by (auto simp add: train_iteration_def Let_def split: prod.splits list.splits if_splits)
  with Cons.IH [OF rest] show ?case by simp
qed

lemma train_epoch_losses:
  "train_epoch L batches s = Inr s' \<Longrightarrow>
   length (losses s') = length (losses s) + length batches"
  using train_for_losses [of L "enumerate 0 batches" s s'] by (simp add: train_epoch_def)

section \<open>The gradient the optimizer receives\<close>

lemma loss_of_fun:
  "loss_of L s =
     (\<lambda>\<theta>. F_mse_loss L
            (model_call L (grad_enabled s) \<theta> (noisy_images s) (Batch (timesteps_v s)))
            (noise s))"
  by (simp add: fun_eq_iff loss_of_def)

lemma half_square_derivative:
  fixes f :: "'p::real_normed_vector \<Rightarrow> real"
  assumes "(f has_derivative D) (at x)"
  shows "((\<lambda>y. (f y)\<^sup>2 / 2) has_derivative (\<lambda>h. f x * D h)) (at x)"
  by (rule has_derivative_eq_rhs) (auto intro!: derivative_eq_intros assms)

text \<open>
  Claim C9. The training cell calls \<^verbatim>\<open>loss.backward(loss)\<close>: the backward pass is seeded
  with the loss. Take an iteration that returns, started with zeroed gradients (as
  \<^verbatim>\<open>optimizer.zero_grad()\<close> leaves them), and suppose that automatic differentiation
  returns the derivative of the loss with respect to the parameters. Then the gradient
  handed to \<^verbatim>\<open>optimizer.step()\<close> is the loss value times the derivative of the
  mean-squared-error loss; this is the derivative of one half of the squared loss; and
  it differs from the derivative of the loss itself whenever the loss is not 1 and that
  derivative is not zero. The iteration leaves the gradients zeroed again.
\<close>

theorem backward_seeded_with_loss:
  fixes L :: "('t, 'g, 'p::real_normed_vector, 'o, 'arr) library"
  assumes run: "train_iteration L (k, images) s = Inr s'"
    and zero: "grads s = (\<lambda>h. 0)"
    and exact: "(loss_of L s' has_derivative autograd L (loss_of L s') (model s)) (at (model s))"
  shows "loss s' = loss_of L s' (model s)
     \<and> (optimizer s', model s')
         = optimizer_step L (optimizer s) (model s)
             (\<lambda>h. loss s' * autograd L (loss_of L s') (model s) h)
     \<and> ((\<lambda>\<theta>. (loss_of L s' \<theta>)\<^sup>2 / 2)
          has_derivative (\<lambda>h. loss s' * autograd L (loss_of L s') (model s) h)) (at (model s))
     \<and> (loss s' \<noteq> 1 \<and> autograd L (loss_of L s') (model s) \<noteq> (\<lambda>h. 0)
          \<longrightarrow> (\<lambda>h. loss s' * autograd L (loss_of L s') (model s) h)
                \<noteq> autograd L (loss_of L s') (model s))
     \<and> grads s' = (\<lambda>h. 0)"
proof -
  let ?D = "autograd L (loss_of L s') (model s)"
  have val: "loss s' = loss_of L s' (model s)"
    using run
    by (auto simp add: train_iteration_def Let_def loss_of_def
        split: prod.splits list.splits if_splits)
  have opt: "(optimizer s', model s')
         = optimizer_step L (optimizer s) (model s) (\<lambda>h. loss s' * ?D h)"
    using run zero
    by (auto simp add: train_iteration_def Let_def loss_of_fun tensor_backward_def
        split: prod.splits list.splits if_splits)
  have der: "((\<lambda>\<theta>. (loss_of L s' \<theta>)\<^sup>2 / 2) has_derivative (\<lambda>h. loss s' * ?D h)) (at (model s))"
    unfolding val by (rule half_square_derivative [OF exact])
  have neq: "(\<lambda>h. loss s' * ?D h) \<noteq> ?D" if "loss s' \<noteq> 1" and "?D \<noteq> (\<lambda>h. 0)"
  proof
    assume eq: "(\<lambda>h. loss s' * ?D h) = ?D"
    from that(2) obtain h where h: "?D h \<noteq> 0" by auto
    from eq have "loss s' * ?D h = ?D h" by (rule fun_cong)
    with h that(1) show False by simp
  qed
  have z: "grads s' = (\<lambda>h. 0)"
    using run
    by (auto simp add: train_iteration_def Let_def split: prod.splits list.splits if_splits)
  from val opt der neq z show ?thesis by blast
qed

theorem backward_seeded_with_loss_witness:
  "train_iteration toy (4, [1]) toy_state
     = Inr (toy_state\<lparr>step_v := 4, batch := [1], clean_images := [1], noise := [1], bs := 1,
              timesteps_v := [2], generator := 3, noisy_images := [2], noise_pred := [6], loss := 25,
              losses := [25], optimizer := 1, model := - 497\<rparr>)
   \<and> grads toy_state = (\<lambda>h. 0)
   \<and> ((\<lambda>\<theta>::real. (2 * \<theta> - 1)\<^sup>2) has_derivative (\<lambda>h. h * 20)) (at 3)
   \<and> ((\<lambda>\<theta>::real. (2 * \<theta> - 1) ^ 4 / 2) has_derivative (\<lambda>h. 500 * h)) (at 3)
   \<and> (\<lambda>h::real. 25 * (h * 20)) \<noteq> (\<lambda>h. h * 20)"
proof -
  let ?s' = "toy_state\<lparr>step_v := 4, batch := [1], clean_images := [1], noise := [1], bs := 1,
              timesteps_v := [2], generator := 3, noisy_images := [2], noise_pred := [6], loss := 25,
              losses := [25], optimizer := 1, model := - 497\<rparr>"
  have run: "train_iteration toy (4, [1]) toy_state = Inr ?s'"
    by (simp add: train_iteration_def toy_def toy_state_def Let_def DDPMScheduler_def
        loss_of_def tensor_backward_def)
  have zero: "grads toy_state = (\<lambda>h. 0)"
    by (simp add: toy_state_def)
  have lf: "loss_of toy ?s' = (\<lambda>\<theta>. (2 * \<theta> - 1)\<^sup>2)"
    by (simp add: loss_of_fun toy_def mult.commute)
  have ag: "autograd toy (\<lambda>\<theta>. (2 * \<theta> - 1)\<^sup>2) 3 = (\<lambda>h. h * 20)"
    by (simp add: toy_def fun_eq_iff)
  have m: "model toy_state = 3"
    by (simp add: toy_state_def)
  have plain: "((\<lambda>\<theta>::real. (2 * \<theta> - 1)\<^sup>2) has_derivative (\<lambda>h. h * 20)) (at 3)"
    by (rule has_derivative_eq_rhs) (auto intro!: derivative_eq_intros)
  have exact: "(loss_of toy ?s' has_derivative autograd toy (loss_of toy ?s') (model toy_state))
                 (at (model toy_state))"
    unfolding lf m ag by (rule plain)
  note inst = backward_seeded_with_loss [OF run zero exact, unfolded lf m ag]
  have l: "loss ?s' = 25"
    by simp
  from inst have "((\<lambda>\<theta>::real. ((2 * \<theta> - 1)\<^sup>2)\<^sup>2 / 2)
                    has_derivative (\<lambda>h. loss ?s' * (h * 20))) (at 3)"
    by blast
  then have half: "((\<lambda>\<theta>::real. (2 * \<theta> - 1) ^ 4 / 2) has_derivative (\<lambda>h. 500 * h)) (at 3)"
    unfolding l by simp
  have nz: "(\<lambda>h::real. h * 20) \<noteq> (\<lambda>h. 0)"
  proof
    assume "(\<lambda>h::real. h * 20) = (\<lambda>h. 0)"
    then have "(1::real) * 20 = 0" by (rule fun_cong)
    then show False by simp
  qed
  from inst have "loss ?s' \<noteq> 1 \<and> (\<lambda>h::real. h * 20) \<noteq> (\<lambda>h. 0)
                    \<longrightarrow> (\<lambda>h. loss ?s' * (h * 20)) \<noteq> (\<lambda>h::real. h * 20)"
    by blast
  with nz have differ: "(\<lambda>h::real. 25 * (h * 20)) \<noteq> (\<lambda>h. h * 20)"
    unfolding l by simp
  from run zero plain half differ show ?thesis by blast
qed

end
